theory Spec2Isabelle
  imports Main
begin

section \<open>Data model (models.py, db_models.py, config.py)\<close>

text \<open>
  Conventions. Every function takes what the source reads from its environment as
  arguments: the settings, the hashing context, the users collection, each reading of
  the clock and each random token. A function that writes to the collection returns the
  new collection. A request body is taken as its request model has validated it.
  Annotations are not evaluated. A name that a function body evaluates while its module
  does not bind it raises NameError there (\<open>ObjectId\<close> in verify_email.py and
  reset_password.py). The diagnostic \<open>print\<close> calls are not modelled.
\<close>

text \<open>
  The two enumerations of models.py. Both are string enumerations: \<open>UserRole_value\<close> is
  the member's \<open>.value\<close>, and \<open>UserRole_of\<close> is the call \<open>UserRole(s)\<close>, which raises
  ValueError (here \<open>None\<close>) when no member has the value \<open>s\<close>.
\<close>

datatype UserRole = STUDENT | TEACHER | ADMIN

datatype UserStatus = ACTIVE | INACTIVE | PENDING_VERIFICATION

fun UserRole_value :: "UserRole \<Rightarrow> string" where
  "UserRole_value STUDENT = ''student''"
| "UserRole_value TEACHER = ''teacher''"
| "UserRole_value ADMIN = ''admin''"

definition UserRole_of :: "string \<Rightarrow> UserRole option" where
  "UserRole_of s =
     (if s = ''student'' then Some STUDENT
      else if s = ''teacher'' then Some TEACHER
      else if s = ''admin'' then Some ADMIN
      else None)"

text \<open>
  Exceptions are values. \<open>HTTPException\<close> carries the status code, the detail and the
  headers the source passes; the other constructors are the library exceptions that the
  source does not catch (the web framework answers them with status 500), and the
  framework's own RequestValidationError, which it answers with status 422 and which
  carries the names of the missing query parameters.
\<close>

datatype exn =
    HTTPException (status_code: nat) (detail: string) (headers: "(string \<times> string) list")
  | InvalidId string
  | NameError string
  | TypeError
  | RequestValidationError "string list"
  | UnknownHashError
  | MalformedHashError
  | NullPasswordError

text \<open>
  Instants are microseconds since the epoch, the resolution of the source's \<open>datetime\<close>;
  a \<open>timedelta\<close> is a number of microseconds. Readings of the clock are exact: the
  rounding of a floating-point timestamp is not modelled.
\<close>

type_synonym datetime = int

text \<open>
  The value of a document's \<open>_id\<close>. The store compares values together with their type:
  an ObjectId is never equal to a string, whatever the string holds. An ObjectId is kept
  as the lower-case hexadecimal digits of its bytes, which is also what \<open>str\<close> prints:
  24 digits for every ObjectId the store generates.
\<close>

datatype bson_id = BObjectId string | BString string

definition hexdigit :: "char \<Rightarrow> bool" where
  "hexdigit c = (c \<in> set ''0123456789abcdefABCDEF'')"

definition hex_lower :: "char \<Rightarrow> char" where
  "hex_lower c =
     (if c = CHR ''A'' then CHR ''a'' else if c = CHR ''B'' then CHR ''b''
      else if c = CHR ''C'' then CHR ''c'' else if c = CHR ''D'' then CHR ''d''
      else if c = CHR ''E'' then CHR ''e'' else if c = CHR ''F'' then CHR ''f''
      else c)"

definition is_space :: "char \<Rightarrow> bool" where
  \<comment> \<open>ASCII white space: space, tab, line feed, vertical tab, form feed, carriage return\<close>
  "is_space c = (c \<in> set [CHR '' '', CHR 0x09, CHR 0x0A, CHR 0x0B, CHR 0x0C, CHR 0x0D])"

text \<open>
  \<open>bytes.fromhex\<close>: white space is skipped before each byte, and a byte is two adjacent
  hexadecimal digits; anything else is a ValueError (here \<open>None\<close>). The result is given
  as the lower-case digits of the bytes.
\<close>

fun fromhex :: "string \<Rightarrow> string option" where
  "fromhex [] = Some []"
| "fromhex [c] = (if is_space c then Some [] else None)"
| "fromhex (c # d # ds) =
     (if is_space c then fromhex (d # ds)
      else if hexdigit c \<and> hexdigit d
        then map_option (\<lambda>r. hex_lower c # hex_lower d # r) (fromhex ds)
      else None)"

definition ObjectId :: "string \<Rightarrow> exn + bson_id" where
  \<comment> \<open>the constructor \<open>ObjectId(s)\<close> on a string: 24 characters that \<open>bytes.fromhex\<close>
      reads, or InvalidId\<close>
  "ObjectId s =
     (if length s = 24
      then (case fromhex s of
              None \<Rightarrow> Inl (InvalidId s)
            | Some h \<Rightarrow> Inr (BObjectId h))
      else Inl (InvalidId s))"

fun str_id :: "bson_id \<Rightarrow> string" where
  \<comment> \<open>\<open>str\<close> on an \<open>_id\<close>: the \<open>BeforeValidator(str)\<close> of \<open>PyObjectId\<close>\<close>
  "str_id (BObjectId h) = h"
| "str_id (BString s) = s"

text \<open>
  A document of the users collection, and at the same time the \<open>UserModel\<close> built from
  it. \<open>doc_id\<close> is the stored \<open>_id\<close>; the model's \<open>id\<close> field is \<open>user_id_str\<close>, its
  string form.
\<close>

record UserModel =
  doc_id :: bson_id
  email :: string
  hashed_password :: string
  full_name :: string
  role :: UserRole
  status :: UserStatus
  is_verified :: bool
  verification_token :: "string option"
  verification_token_expires_at :: "datetime option"
  reset_password_token :: "string option"
  reset_password_token_expires_at :: "datetime option"
  created_at :: datetime
  updated_at :: datetime

definition user_id_str :: "UserModel \<Rightarrow> string" where
  "user_id_str u = str_id (doc_id u)"

record UserResponse =
  r_id :: string
  r_email :: string
  r_full_name :: string
  r_role :: UserRole
  r_status :: UserStatus
  r_is_verified :: bool

definition to_UserResponse :: "UserModel \<Rightarrow> UserResponse" where
  \<comment> \<open>\<open>response_model=UserResponse\<close>: the public view of an account\<close>
  "to_UserResponse u =
     \<lparr>r_id = user_id_str u, r_email = email u, r_full_name = full_name u,
      r_role = role u, r_status = status u, r_is_verified = is_verified u\<rparr>"

record TokenData =
  td_email :: "string option"
  td_role :: "UserRole option"
  td_id :: "string option"

record Settings =
  JWT_SECRET_KEY :: string
  ACCESS_TOKEN_EXPIRE_MINUTES :: int
  REFRESH_TOKEN_EXPIRE_MINUTES :: int
  PASSWORD_RESET_TOKEN_EXPIRE_MINUTES :: int
  EMAIL_VERIFICATION_TOKEN_EXPIRE_MINUTES :: int

definition settings :: Settings where
  \<comment> \<open>the defaults of config.py\<close>
  "settings =
     \<lparr>JWT_SECRET_KEY = ''your_super_secret_jwt_key_please_change_this_in_production'',
      ACCESS_TOKEN_EXPIRE_MINUTES = 30,
      REFRESH_TOKEN_EXPIRE_MINUTES = 10080,
      PASSWORD_RESET_TOKEN_EXPIRE_MINUTES = 60,
      EMAIL_VERIFICATION_TOKEN_EXPIRE_MINUTES = 1440\<rparr>"

definition minutes :: "int \<Rightarrow> int" where
  \<comment> \<open>\<open>timedelta(minutes=m)\<close> in microseconds\<close>
  "minutes m = 60000000 * m"

section \<open>The users collection\<close>

text \<open>
  The collection is the list of its documents in the store's order. \<open>find_one\<close> returns
  the first document that matches the filter; \<open>update_one\<close> changes the first document
  that matches and reports \<open>modified_count\<close>, which counts a document only when the
  update changed it.
\<close>

type_synonym collection = "UserModel list"

definition find_one :: "(UserModel \<Rightarrow> bool) \<Rightarrow> collection \<Rightarrow> UserModel option" where
  "find_one flt c = List.find flt c"

fun update_one ::
  "(UserModel \<Rightarrow> bool) \<Rightarrow> (UserModel \<Rightarrow> UserModel) \<Rightarrow> collection \<Rightarrow> collection \<times> nat" where
  "update_one flt upd [] = ([], 0)"
| "update_one flt upd (d # ds) =
     (if flt d then (upd d # ds, if upd d = d then 0 else 1)
      else (case update_one flt upd ds of (ds', n) \<Rightarrow> (d # ds', n)))"

section \<open>The token codec (jwt_handler.py)\<close>

text \<open>
  The signing library is outside the repository and is modelled symbolically, for the
  algorithm HS256 that config.py sets. A token string is either the signed serialisation
  of a payload under some key (\<open>JWS\<close>), or a string that is no such serialisation
  (\<open>Undecodable\<close>). The payload holds the string-valued claims and the optional claim
  \<open>exp\<close>, a number of whole seconds since the epoch. Claims of other types are not
  represented, and a claims map is taken not to hold the other registered claims
  (\<open>nbf\<close>, \<open>iat\<close>, \<open>aud\<close>, \<open>iss\<close>), which the library would check. InvalidSignatureError
  and DecodeError are subclasses of InvalidTokenError, which stands for all of them.

  The key of a signature is the key as HMAC uses it: a secret of at most 64 bytes is
  padded with zero bytes to the block of 64 bytes, a longer secret is replaced by its
  SHA-256 digest. Two secrets sign alike when they give the same \<open>hs256_key\<close>. The
  digest is a free constructor here, so a long secret and the bytes of its digest, which
  sign alike, are different keys in the model; no property below compares a secret of
  more than 64 bytes with one of at most 64. The secret is taken not to be in a key-file
  format, which the library refuses as an HMAC secret.
\<close>

datatype hmac_key = Block string | Digest string

definition hs256_key :: "string \<Rightarrow> hmac_key" where
  "hs256_key key =
     (if length key \<le> 64 then Block (key @ replicate (64 - length key) (CHR 0x00))
      else Digest key)"

record payload =
  claims :: "string \<rightharpoonup> string"
  exp :: "int option"

datatype jwt = JWS hmac_key payload | Undecodable

datatype jwt_error = ExpiredSignatureError | InvalidTokenError

text \<open>
  The dictionary handed to \<open>jwt.encode\<close>: its \<open>exp\<close> is a \<open>datetime\<close>. The library writes
  it into the payload as whole seconds, dropping the microseconds
  (\<open>timegm(utctimetuple())\<close>). On decoding, the signature is checked first and the expiry
  second; a token is expired when its \<open>exp\<close>, in seconds, is not after the clock.
\<close>

record token_dict =
  dict_claims :: "string \<rightharpoonup> string"
  dict_exp :: "datetime option"

definition whole_seconds :: "datetime \<Rightarrow> int" where
  "whole_seconds t = t div 1000000"

definition jwt_encode :: "token_dict \<Rightarrow> string \<Rightarrow> jwt" where
  "jwt_encode d key =
     JWS (hs256_key key) \<lparr>claims = dict_claims d, exp = map_option whole_seconds (dict_exp d)\<rparr>"

fun jwt_decode :: "jwt \<Rightarrow> string \<Rightarrow> datetime \<Rightarrow> jwt_error + payload" where
  "jwt_decode Undecodable key now = Inl InvalidTokenError"
| "jwt_decode (JWS k p) key now =
     (if k \<noteq> hs256_key key then Inl InvalidTokenError
      else (case exp p of
              None \<Rightarrow> Inr p
            | Some e \<Rightarrow> if 1000000 * e \<le> now then Inl ExpiredSignatureError else Inr p))"

definition create_access_token ::
  "Settings \<Rightarrow> datetime \<Rightarrow> (string \<rightharpoonup> string) \<Rightarrow> int option \<Rightarrow> jwt" where
  "create_access_token cfg now data expires_delta =
     (let expire =
        (case expires_delta of
           None \<Rightarrow> now + minutes (ACCESS_TOKEN_EXPIRE_MINUTES cfg)
         | Some d \<Rightarrow> if d \<noteq> 0 then now + d
                     else now + minutes (ACCESS_TOKEN_EXPIRE_MINUTES cfg));
          to_encode = \<lparr>dict_claims = data(''exp'' := None), dict_exp = Some expire\<rparr>
      in jwt_encode to_encode (JWT_SECRET_KEY cfg))"

definition create_refresh_token ::
  "Settings \<Rightarrow> datetime \<Rightarrow> (string \<rightharpoonup> string) \<Rightarrow> int option \<Rightarrow> jwt" where
  "create_refresh_token cfg now data expires_delta =
     (let expire =
        (case expires_delta of
           None \<Rightarrow> now + minutes (REFRESH_TOKEN_EXPIRE_MINUTES cfg)
         | Some d \<Rightarrow> if d \<noteq> 0 then now + d
                     else now + minutes (REFRESH_TOKEN_EXPIRE_MINUTES cfg));
          to_encode = \<lparr>dict_claims = data(''exp'' := None), dict_exp = Some expire\<rparr>
      in jwt_encode to_encode (JWT_SECRET_KEY cfg))"

definition credentials_exception :: exn where
  "credentials_exception =
     HTTPException 401 ''Could not validate credentials'' [(''WWW-Authenticate'', ''Bearer'')]"

definition expired_exception :: exn where
  "expired_exception =
     HTTPException 401 ''Token has expired'' [(''WWW-Authenticate'', ''Bearer'')]"

text \<open>
  \<open>decode_token\<close>. The \<open>raise credentials_exception\<close> for a missing claim stands inside
  the \<open>try\<close>; it is caught by the last handler, which raises the same exception again.
  A role string that names no role makes \<open>UserRole(role)\<close> raise ValueError, which the
  last handler turns into \<open>credentials_exception\<close> as well.
\<close>

definition decode_token :: "Settings \<Rightarrow> datetime \<Rightarrow> jwt \<Rightarrow> exn + TokenData" where
  "decode_token cfg now token =
     (case jwt_decode token (JWT_SECRET_KEY cfg) now of
        Inl ExpiredSignatureError \<Rightarrow> Inl expired_exception
      | Inl InvalidTokenError \<Rightarrow> Inl credentials_exception
      | Inr p \<Rightarrow>
          (case (claims p ''email'', claims p ''role'', claims p ''id'') of
             (Some e, Some r, Some i) \<Rightarrow>
               (case UserRole_of r of
                  None \<Rightarrow> Inl credentials_exception
                | Some ur \<Rightarrow> Inr \<lparr>td_email = Some e, td_role = Some ur, td_id = Some i\<rparr>)
           | _ \<Rightarrow> Inl credentials_exception))"

section \<open>Password hashing (auth.py)\<close>

text \<open>
  The hashing library is outside the repository: \<open>pwd_context\<close> is a parameter, a pair
  of its \<open>hash\<close> (the salt it draws is an argument here) and its \<open>verify\<close>, either of
  which may raise. The two functions of auth.py hand their arguments to it and return
  what it returns; neither has a handler.
\<close>

record CryptContext =
  ctx_hash :: "string \<Rightarrow> string \<Rightarrow> exn + string"
  ctx_verify :: "string \<Rightarrow> string \<Rightarrow> exn + bool"

definition hash_password :: "CryptContext \<Rightarrow> string \<Rightarrow> string \<Rightarrow> exn + string" where
  "hash_password pwd_context salt password = ctx_hash pwd_context password salt"

definition verify_password :: "CryptContext \<Rightarrow> string \<Rightarrow> string \<Rightarrow> exn + bool" where
  "verify_password pwd_context plain_password hashed = ctx_verify pwd_context plain_password hashed"

text \<open>
  A symbolic stand-in for the bcrypt scheme of the library. It serves to evaluate the
  functions at concrete inputs; no property of the library is derived from it. A digest
  is one of the scheme's identifiers, a cost of two digits, a dollar sign, 22 salt
  characters and then the hashed part, which here is the first 72 bytes of the password
  itself (the hash is a free constructor; the scheme reads no more than 72 bytes).
  \<open>verify\<close> first identifies the scheme by the identifier: the library raises
  UnknownHashError for a string it cannot identify and a value error for one that has an
  identifier and is not a digest; it refuses a password that holds a zero byte. The
  alphabet of salt and hashed part and the range of the cost are not checked.
\<close>

definition bcrypt_hash :: "string \<Rightarrow> string \<Rightarrow> string" where
  \<comment> \<open>the digest of a password under a salt\<close>
  "bcrypt_hash password salt =
     ''$2b$12$'' @ take 22 (salt @ replicate 22 (CHR ''.'')) @ take 72 password"

definition bcrypt_idents :: "string list" where
  "bcrypt_idents = [''$2$'', ''$2a$'', ''$2x$'', ''$2y$'', ''$2b$'']"

definition bcrypt_identify :: "string \<Rightarrow> string option" where
  \<comment> \<open>what follows the identifier, when the string starts with one\<close>
  "bcrypt_identify digest =
     map_option (\<lambda>i. drop (length i) digest)
       (List.find (\<lambda>i. take (length i) digest = i) bcrypt_idents)"

definition isdigit :: "char \<Rightarrow> bool" where
  "isdigit c = (c \<in> set ''0123456789'')"

definition bcrypt_checksum :: "string \<Rightarrow> string option" where
  \<comment> \<open>the hashed part, after the cost, the dollar sign and the 22 salt characters\<close>
  "bcrypt_checksum rest =
     (case rest of
        a # b # c # salt_and_checksum \<Rightarrow>
          if isdigit a \<and> isdigit b \<and> c = CHR ''$'' \<and> 22 \<le> length salt_and_checksum
          then Some (drop 22 salt_and_checksum) else None
      | _ \<Rightarrow> None)"

definition bcrypt_verify :: "string \<Rightarrow> string \<Rightarrow> exn + bool" where
  "bcrypt_verify password digest =
     (case bcrypt_identify digest of
        None \<Rightarrow> Inl UnknownHashError
      | Some rest \<Rightarrow>
          (case bcrypt_checksum rest of
             None \<Rightarrow> Inl MalformedHashError
           | Some checksum \<Rightarrow>
               if CHR 0x00 \<in> set password then Inl NullPasswordError
               else Inr (take 72 password = checksum)))"

definition bcrypt_context :: CryptContext where
  "bcrypt_context =
     \<lparr>ctx_hash = (\<lambda>password salt.
          if CHR 0x00 \<in> set password then Inl NullPasswordError
          else Inr (bcrypt_hash password salt)),
      ctx_verify = bcrypt_verify\<rparr>"

section \<open>The guard chain (auth.py)\<close>

definition unverified_exception :: exn where
  "unverified_exception =
     HTTPException 403 ''Account not verified. Please verify your email.'' []"

definition get_current_user ::
  "Settings \<Rightarrow> datetime \<Rightarrow> jwt \<Rightarrow> collection \<Rightarrow> exn + UserModel" where
  "get_current_user cfg now token db =
     (case decode_token cfg now token of
        Inl e \<Rightarrow> Inl e
      | Inr token_data \<Rightarrow>
          (case td_id token_data of
             None \<Rightarrow> Inl credentials_exception
           | Some user_id \<Rightarrow>
               (case ObjectId user_id of
                  Inl e \<Rightarrow> Inl e
                | Inr oid \<Rightarrow>
                    (case find_one (\<lambda>d. doc_id d = oid) db of
                       None \<Rightarrow> Inl credentials_exception
                     | Some user \<Rightarrow>
                         if \<not> is_verified user \<and> role user \<noteq> ADMIN
                         then Inl unverified_exception
                         else Inr user))))"

definition get_current_active_user :: "UserModel \<Rightarrow> exn + UserModel" where
  "get_current_active_user current_user =
     (if status current_user \<noteq> ACTIVE then Inl (HTTPException 400 ''Inactive user'' [])
      else Inr current_user)"

definition get_current_admin_user :: "UserModel \<Rightarrow> exn + UserModel" where
  "get_current_admin_user current_user =
     (if role current_user \<noteq> ADMIN
      then Inl (HTTPException 403 ''Not enough permissions. Admin access required.'' [])
      else Inr current_user)"

definition get_current_teacher_or_admin_user :: "UserModel \<Rightarrow> exn + UserModel" where
  "get_current_teacher_or_admin_user current_user =
     (if role current_user \<notin> set [TEACHER, ADMIN]
      then Inl (HTTPException 403 ''Not enough permissions. Teacher or Admin access required.'' [])
      else Inr current_user)"

definition get_current_student_user :: "UserModel \<Rightarrow> exn + UserModel" where
  "get_current_student_user current_user =
     (if role current_user \<noteq> STUDENT
      then Inl (HTTPException 403 ''Not enough permissions. Student access required.'' [])
      else Inr current_user)"

text \<open>
  \<open>Depends\<close>: a dependency is resolved before the function that declares it, and an
  exception raised while resolving it is the answer to the request.
\<close>

definition depends :: "exn + 'a \<Rightarrow> ('a \<Rightarrow> exn + 'b) \<Rightarrow> exn + 'b" where
  "depends r f = (case r of Inl e \<Rightarrow> Inl e | Inr x \<Rightarrow> f x)"

section \<open>The verification token (verify_email.py)\<close>

text \<open>
  \<open>store_verification_token\<close> and \<open>store_reset_password_token\<close> build the filter of
  their update from \<open>UserModel.Config.json_encoders[ObjectId](user_id)\<close>. Neither module
  binds the name \<open>ObjectId\<close>, so evaluating the expression raises NameError. It stands
  inside the \<open>try\<close>: the handler catches the exception and the function returns False
  without a write. (Were the name bound, the expression would be \<open>str(user_id)\<close>, a
  string, which no \<open>_id\<close> that is an ObjectId equals.) The two readings of the clock are
  two arguments.
\<close>

definition json_encoders_ObjectId :: "string \<Rightarrow> exn + bson_id" where
  "json_encoders_ObjectId user_id = Inl (NameError ''ObjectId'')"

definition store_verification_token ::
  "Settings \<Rightarrow> datetime \<Rightarrow> datetime \<Rightarrow> string \<Rightarrow> string \<Rightarrow> collection \<Rightarrow> collection \<times> bool" where
  "store_verification_token cfg now now' user_id token db =
     (let expires_at = now + minutes (EMAIL_VERIFICATION_TOKEN_EXPIRE_MINUTES cfg) in
      case json_encoders_ObjectId user_id of
        Inl e \<Rightarrow> (db, False)
      | Inr filter_id \<Rightarrow>
          (case update_one (\<lambda>d. doc_id d = filter_id)
                  (\<lambda>d. d\<lparr>verification_token := Some token,
                          verification_token_expires_at := Some expires_at,
                          updated_at := now'\<rparr>) db of
             (db', modified_count) \<Rightarrow> (db', modified_count > 0)))"

definition unexpired :: "datetime option \<Rightarrow> datetime \<Rightarrow> bool" where
  \<comment> \<open>the filter \<open>{"$gt": now}\<close>: a missing or null field does not match. The store
      keeps instants to the millisecond and reads the instant of a filter likewise, which
      does not change the result for a stored expiry.\<close>
  "unexpired expires_at now = (case expires_at of None \<Rightarrow> False | Some e \<Rightarrow> e > now)"

definition verify_user_email ::
  "datetime \<Rightarrow> datetime \<Rightarrow> string \<Rightarrow> collection \<Rightarrow> collection \<times> UserModel option" where
  "verify_user_email now now' token db =
     (case find_one (\<lambda>d. verification_token d = Some token
                          \<and> unexpired (verification_token_expires_at d) now) db of
        None \<Rightarrow> (db, None)
      | Some user \<Rightarrow>
          (case update_one (\<lambda>d. doc_id d = doc_id user)
                 (\<lambda>d. d\<lparr>is_verified := True,
                         status := ACTIVE,
                         verification_token := None,
                         verification_token_expires_at := None,
                         updated_at := now'\<rparr>) db of
             (db', modified_count) \<Rightarrow> (db', find_one (\<lambda>d. doc_id d = doc_id user) db')))"

section \<open>The reset token (reset_password.py)\<close>

text \<open>
  \<open>store_reset_password_token\<close> builds its filter as \<open>store_verification_token\<close> does
  and fails in the same way. \<open>reset_user_password\<close> hashes with the placeholder of this
  module, not with \<open>hash_password\<close> of auth.py.
\<close>

definition hash_password_placeholder :: "string \<Rightarrow> string" where
  "hash_password_placeholder password = ''hashed_'' @ password"

definition store_reset_password_token ::
  "Settings \<Rightarrow> datetime \<Rightarrow> datetime \<Rightarrow> string \<Rightarrow> string \<Rightarrow> collection \<Rightarrow> collection \<times> bool" where
  "store_reset_password_token cfg now now' user_id token db =
     (let expires_at = now + minutes (PASSWORD_RESET_TOKEN_EXPIRE_MINUTES cfg) in
      case json_encoders_ObjectId user_id of
        Inl e \<Rightarrow> (db, False)
      | Inr filter_id \<Rightarrow>
          (case update_one (\<lambda>d. doc_id d = filter_id)
                  (\<lambda>d. d\<lparr>reset_password_token := Some token,
                          reset_password_token_expires_at := Some expires_at,
                          updated_at := now'\<rparr>) db of
             (db', modified_count) \<Rightarrow> (db', modified_count > 0)))"

definition reset_user_password ::
  "datetime \<Rightarrow> datetime \<Rightarrow> string \<Rightarrow> string \<Rightarrow> collection \<Rightarrow> collection \<times> UserModel option" where
  "reset_user_password now now' reset_token new_password db =
     (case find_one (\<lambda>d. reset_password_token d = Some reset_token
                          \<and> unexpired (reset_password_token_expires_at d) now) db of
        None \<Rightarrow> (db, None)
      | Some user \<Rightarrow>
          (let hashed_new_password = hash_password_placeholder new_password in
           case update_one (\<lambda>d. doc_id d = doc_id user)
                  (\<lambda>d. d\<lparr>hashed_password := hashed_new_password,
                          reset_password_token := None,
                          reset_password_token_expires_at := None,
                          updated_at := now'\<rparr>) db of
             (db', modified_count) \<Rightarrow> (db', find_one (\<lambda>d. doc_id d = doc_id user) db')))"

section \<open>The routes (routes.py)\<close>

record Token =
  access_token :: jwt
  token_type :: string

datatype task = send_verification_email string string | send_password_reset_email string string

definition verify_email_endpoint ::
  "datetime \<Rightarrow> datetime \<Rightarrow> string \<Rightarrow> collection \<Rightarrow> collection \<times> (exn + UserResponse)" where
  "verify_email_endpoint now now' token db =
     (case verify_user_email now now' token db of
        (db', None) \<Rightarrow>
          (db', Inl (HTTPException 400 ''Invalid or expired verification token.'' []))
      | (db', Some verified_user) \<Rightarrow> (db', Inr (to_UserResponse verified_user)))"

definition login_for_access_token ::
  "Settings \<Rightarrow> CryptContext \<Rightarrow> datetime \<Rightarrow> string \<Rightarrow> string \<Rightarrow> collection \<Rightarrow> exn + Token" where
  "login_for_access_token cfg pwd_context now login_email login_password db =
     (case find_one (\<lambda>d. email d = login_email) db of
        None \<Rightarrow>
          Inl (HTTPException 401 ''Incorrect email or password'' [(''WWW-Authenticate'', ''Bearer'')])
      | Some user \<Rightarrow>
          (case verify_password pwd_context login_password (hashed_password user) of
             Inl e \<Rightarrow> Inl e
           | Inr ok \<Rightarrow>
               if \<not> ok then
                 Inl (HTTPException 401 ''Incorrect email or password''
                        [(''WWW-Authenticate'', ''Bearer'')])
               else if \<not> is_verified user then
                 Inl (HTTPException 403 ''Account not verified. Please verify your email.''
                        [(''WWW-Authenticate'', ''Bearer'')])
               else if status user \<noteq> ACTIVE then
                 Inl (HTTPException 403 ''Account is inactive. Please contact support.''
                        [(''WWW-Authenticate'', ''Bearer'')])
               else
                 Inr \<lparr>access_token =
                        create_access_token cfg now
                          [''email'' \<mapsto> email user,
                           ''role'' \<mapsto> UserRole_value (role user),
                           ''id'' \<mapsto> user_id_str user] None,
                      token_type = ''bearer''\<rparr>))"

definition generic_message :: "(string \<times> string) list" where
  "generic_message =
     [(''message'', ''If your email is registered, a password reset link has been sent.'')]"

definition request_password_reset ::
  "Settings \<Rightarrow> datetime \<Rightarrow> datetime \<Rightarrow> string \<Rightarrow> string \<Rightarrow> collection
     \<Rightarrow> collection \<times> task list \<times> (exn + (string \<times> string) list)" where
  "request_password_reset cfg now now' reset_token request_email db =
     (case find_one (\<lambda>d. email d = request_email) db of
        None \<Rightarrow> (db, [], Inr generic_message)
      | Some user \<Rightarrow>
          (case store_reset_password_token cfg now now' (user_id_str user) reset_token db of
             (db', updated) \<Rightarrow>
               if \<not> updated then
                 (db', [], Inl (HTTPException 500 ''Failed to generate password reset token.'' []))
               else
                 (db', [send_password_reset_email (email user) reset_token],
                  Inr generic_message)))"

definition confirm_password_reset ::
  "datetime \<Rightarrow> datetime \<Rightarrow> string \<Rightarrow> string \<Rightarrow> collection \<Rightarrow> collection \<times> (exn + UserResponse)" where
  "confirm_password_reset now now' token new_password db =
     (case reset_user_password now now' token new_password db of
        (db', None) \<Rightarrow>
          (db', Inl (HTTPException 400 ''Invalid or expired password reset token.'' []))
      | (db', Some updated_user) \<Rightarrow> (db', Inr (to_UserResponse updated_user)))"

text \<open>
  The four protected routes. Each is registered as the \<open>decorated_function\<close> that its
  decorator of decorators.py returns, which declares the route's dependency and the
  parameters \<open>*args\<close> and \<open>**kwargs\<close>. The framework resolves the dependency first, and an
  exception raised there is the answer. It then reads \<open>args\<close> and \<open>kwargs\<close> as required
  query parameters and answers 422 when one is missing. When both are present it passes
  them by keyword, so they arrive in \<open>kwargs\<close>, and \<open>decorated_function\<close> hands them on to
  the route function, which takes \<open>current_user\<close> only: the call raises TypeError. The
  route function itself returns the caller, shown as the public view.
\<close>

definition request_validation :: "(string \<rightharpoonup> string) \<Rightarrow> exn + (string \<times> string) list" where
  "request_validation query =
     (case (query ''args'', query ''kwargs'') of
        (Some a, Some k) \<Rightarrow> Inr [(''args'', a), (''kwargs'', k)]
      | _ \<Rightarrow> Inl (RequestValidationError (filter (\<lambda>n. query n = None) [''args'', ''kwargs''])))"

definition decorated_function ::
  "(UserModel \<Rightarrow> exn + 'a) \<Rightarrow> UserModel \<Rightarrow> string list \<Rightarrow> (string \<times> string) list \<Rightarrow> exn + 'a" where
  \<comment> \<open>\<open>func(current_user=current_user, *args, **kwargs)\<close>, for a \<open>func\<close> of one parameter\<close>
  "decorated_function func current_user args kwargs =
     (if args = [] \<and> kwargs = [] then func current_user else Inl TypeError)"

definition protected_student_route ::
  "Settings \<Rightarrow> datetime \<Rightarrow> jwt \<Rightarrow> (string \<rightharpoonup> string) \<Rightarrow> collection \<Rightarrow> exn + UserResponse" where
  "protected_student_route cfg now token query db =
     depends (depends (depends (get_current_user cfg now token db) get_current_active_user)
                get_current_student_user)
       (\<lambda>current_user.
          depends (request_validation query)
            (decorated_function (\<lambda>current_user. Inr (to_UserResponse current_user))
               current_user []))"

definition protected_teacher_route ::
  "Settings \<Rightarrow> datetime \<Rightarrow> jwt \<Rightarrow> (string \<rightharpoonup> string) \<Rightarrow> collection \<Rightarrow> exn + UserResponse" where
  "protected_teacher_route cfg now token query db =
     depends (depends (depends (get_current_user cfg now token db) get_current_active_user)
                get_current_teacher_or_admin_user)
       (\<lambda>current_user.
          depends (request_validation query)
            (decorated_function (\<lambda>current_user. Inr (to_UserResponse current_user))
               current_user []))"

definition protected_admin_route ::
  "Settings \<Rightarrow> datetime \<Rightarrow> jwt \<Rightarrow> (string \<rightharpoonup> string) \<Rightarrow> collection \<Rightarrow> exn + UserResponse" where
  "protected_admin_route cfg now token query db =
     depends (depends (depends (get_current_user cfg now token db) get_current_active_user)
                get_current_admin_user)
       (\<lambda>current_user.
          depends (request_validation query)
            (decorated_function (\<lambda>current_user. Inr (to_UserResponse current_user))
               current_user []))"

definition protected_any_active_route ::
  "Settings \<Rightarrow> datetime \<Rightarrow> jwt \<Rightarrow> (string \<rightharpoonup> string) \<Rightarrow> collection \<Rightarrow> exn + UserResponse" where
  "protected_any_active_route cfg now token query db =
     depends (depends (get_current_user cfg now token db) get_current_active_user)
       (\<lambda>current_user.
          depends (request_validation query)
            (decorated_function (\<lambda>current_user. Inr (to_UserResponse current_user))
               current_user []))"

text \<open>
  The router's dispatch on the four paths under \<open>/auth/protected\<close>.
\<close>

datatype route = Student_route | Teacher_route | Admin_route | Any_active_route

fun router ::
  "route \<Rightarrow> Settings \<Rightarrow> datetime \<Rightarrow> jwt \<Rightarrow> (string \<rightharpoonup> string) \<Rightarrow> collection
     \<Rightarrow> exn + UserResponse" where
  "router Student_route = protected_student_route"
| "router Teacher_route = protected_teacher_route"
| "router Admin_route = protected_admin_route"
| "router Any_active_route = protected_any_active_route"

section \<open>Predicates of the specification\<close>

text \<open>
  The role each route variant requires, in the specification's words: student only,
  teacher or admin, admin only, any role.
\<close>

fun role_allowed :: "route \<Rightarrow> UserRole \<Rightarrow> bool" where
  "role_allowed Student_route r = (r = STUDENT)"
| "role_allowed Teacher_route r = (r = TEACHER \<or> r = ADMIN)"
| "role_allowed Admin_route r = (r = ADMIN)"
| "role_allowed Any_active_route r = True"

text \<open>
  The fields of an account that a password reset must leave alone: every field but the
  password hash, the reset token, its expiry and the update instant.
\<close>

definition same_outside_reset :: "UserModel \<Rightarrow> UserModel \<Rightarrow> bool" where
  "same_outside_reset d d' =
     (doc_id d' = doc_id d \<and> email d' = email d \<and> full_name d' = full_name d
      \<and> role d' = role d \<and> status d' = status d \<and> is_verified d' = is_verified d
      \<and> verification_token d' = verification_token d
      \<and> verification_token_expires_at d' = verification_token_expires_at d
      \<and> created_at d' = created_at d)"

section \<open>Example data\<close>

text \<open>
  Concrete accounts and tokens, used where a property is evaluated at an input.
\<close>

definition alice :: UserModel where
  "alice =
     \<lparr>doc_id = BObjectId ''64b7f0c2a1d3e4f5a6b7c8d9'',
      email = ''alice@campus.edu'',
      hashed_password = bcrypt_hash ''password123'' ''saltsaltsaltsaltsaltsa'',
      full_name = ''Alice'',
      role = STUDENT,
      status = PENDING_VERIFICATION,
      is_verified = False,
      verification_token = Some ''verify-token-alice'',
      verification_token_expires_at = Some 5000,
      reset_password_token = Some ''reset-token-alice'',
      reset_password_token_expires_at = Some 5000,
      created_at = 100,
      updated_at = 100\<rparr>"

definition alice_claims :: "string \<rightharpoonup> string" where
  "alice_claims =
     [''email'' \<mapsto> ''alice@campus.edu'', ''role'' \<mapsto> ''student'',
      ''id'' \<mapsto> ''64b7f0c2a1d3e4f5a6b7c8d9'']"

definition no_id_token :: jwt where
  \<comment> \<open>signed with the configured key, not expired, and without the claim \<open>id\<close>\<close>
  "no_id_token =
     JWS (hs256_key (JWT_SECRET_KEY settings))
       \<lparr>claims = [''email'' \<mapsto> ''alice@campus.edu'', ''role'' \<mapsto> ''student''],
        exp = None\<rparr>"

definition bob :: UserModel where
  \<comment> \<open>an inactive, unverified teacher who holds a verification token\<close>
  "bob =
     \<lparr>doc_id = BObjectId ''64b7f0c2a1d3e4f5a6b7c8da'',
      email = ''bob@campus.edu'',
      hashed_password = bcrypt_hash ''hunter2hunter2'' ''pepperpepperpepperpepp'',
      full_name = ''Bob'',
      role = TEACHER,
      status = INACTIVE,
      is_verified = False,
      verification_token = Some ''verify-token-bob'',
      verification_token_expires_at = Some 5000,
      reset_password_token = None,
      reset_password_token_expires_at = None,
      created_at = 200,
      updated_at = 200\<rparr>"

definition root_admin :: UserModel where
  \<comment> \<open>an active administrator whose email has not been verified\<close>
  "root_admin =
     \<lparr>doc_id = BObjectId ''64b7f0c2a1d3e4f5a6b7c8db'',
      email = ''root@campus.edu'',
      hashed_password = bcrypt_hash ''adminpassword'' ''sugarsugarsugarsugarsu'',
      full_name = ''Root'',
      role = ADMIN,
      status = ACTIVE,
      is_verified = False,
      verification_token = None,
      verification_token_expires_at = None,
      reset_password_token = None,
      reset_password_token_expires_at = None,
      created_at = 300,
      updated_at = 300\<rparr>"

definition carol :: UserModel where
  \<comment> \<open>an active, verified student who holds a reset token\<close>
  "carol =
     \<lparr>doc_id = BObjectId ''64b7f0c2a1d3e4f5a6b7c8dc'',
      email = ''carol@campus.edu'',
      hashed_password = bcrypt_hash ''oldpassword1'' ''spicespicespicespicesp'',
      full_name = ''Carol'',
      role = STUDENT,
      status = ACTIVE,
      is_verified = True,
      verification_token = None,
      verification_token_expires_at = None,
      reset_password_token = Some ''reset-token-carol'',
      reset_password_token_expires_at = Some 5000,
      created_at = 400,
      updated_at = 400\<rparr>"

definition bad_subject_token :: jwt where
  \<comment> \<open>signed with the configured key; its subject id is not the text of an ObjectId\<close>
  "bad_subject_token =
     JWS (hs256_key (JWT_SECRET_KEY settings))
       \<lparr>claims = [''email'' \<mapsto> ''carol@campus.edu'', ''role'' \<mapsto> ''student'',
                  ''id'' \<mapsto> ''abc''],
        exp = None\<rparr>"

section \<open>Properties\<close>

subsection \<open>Facts about the collection\<close>

lemma UserRole_of_value: "UserRole_of (UserRole_value r) = Some r"
  by (cases r) (simp_all add: UserRole_of_def)

lemma find_one_SomeD: "find_one P db = Some u \<Longrightarrow> u \<in> set db \<and> P u"
  unfolding find_one_def by (induction db) (auto split: if_splits)

lemma find_one_None_iff: "find_one P db = None \<longleftrightarrow> (\<forall>d\<in>set db. \<not> P d)"
  unfolding find_one_def by (auto simp: find_None_iff)

lemma find_one_unique:
  assumes "u \<in> set db" and "P u" and "\<And>d. d \<in> set db \<Longrightarrow> P d \<Longrightarrow> d = u"
  shows "find_one P db = Some u"
proof (cases "find_one P db")
  case None
  with assms(1,2) show ?thesis by (simp add: find_one_None_iff)
next
  case (Some d)
  from find_one_SomeD[OF Some] assms(3) have "d = u" by blast
  with Some show ?thesis by simp
qed

lemma same_id_same_doc:
  assumes "distinct (map doc_id db)" and "u \<in> set db" and "d \<in> set db"
    and "doc_id d = doc_id u"
  shows "d = u"
  using assms by (simp add: distinct_map inj_on_def)

lemma map_upd_absent:
  "u \<notin> set db \<Longrightarrow> map (\<lambda>d. if d = u then f d else d) db = db"
  by (induction db) auto

text \<open>
  With unique \<open>_id\<close>s, an update by the \<open>_id\<close> of a stored document changes that
  document and no other.
\<close>

lemma update_one_by_id:
  assumes "distinct (map doc_id db)" and "u \<in> set db"
  shows "update_one (\<lambda>d. doc_id d = doc_id u) f db
     = (map (\<lambda>d. if d = u then f d else d) db, if f u = u then 0 else 1)"
  using assms
proof (induction db)
  case Nil
  then show ?case by simp
next
  case (Cons a db)
  show ?case
  proof (cases "a = u")
    case True
    from Cons.prems(1) True have "u \<notin> set db" by auto
    then have "map (\<lambda>d. if d = u then f d else d) db = db" by (rule map_upd_absent)
    with True show ?thesis by simp
  next
    case False
    from Cons.prems False have in_tl: "u \<in> set db" by simp
    from Cons.prems(1) have dist: "distinct (map doc_id db)" by simp
    from Cons.prems(1) in_tl have neq: "doc_id a \<noteq> doc_id u" by (auto simp: image_iff)
    from Cons.IH[OF dist in_tl] False neq show ?thesis by simp
  qed
qed

lemma find_one_by_id_after:
  assumes "distinct (map doc_id db)" and "u \<in> set db" and "doc_id (f u) = doc_id u"
  shows "find_one (\<lambda>d. doc_id d = doc_id u) (map (\<lambda>d. if d = u then f d else d) db) = Some (f u)"
proof (rule find_one_unique)
  show "f u \<in> set (map (\<lambda>d. if d = u then f d else d) db)"
    using assms(2) by (auto simp: image_iff)
  show "doc_id (f u) = doc_id u" by (rule assms(3))
next
  fix d assume d: "d \<in> set (map (\<lambda>d. if d = u then f d else d) db)" and id: "doc_id d = doc_id u"
  from d obtain x where x: "x \<in> set db" and dx: "d = (if x = u then f x else x)" by auto
  show "d = f u"
  proof (cases "x = u")
    case True
    with dx show ?thesis by simp
  next
    case False
    with dx id have "doc_id x = doc_id u" by simp
    from same_id_same_doc[OF assms(1) assms(2) x this] False show ?thesis by simp
  qed
qed

subsection \<open>The token codec\<close>

text \<open>
  C4, as the code has it. \<open>decode_token\<close> has two failure outcomes, not three. An expired
  token is answered with status 401 and the detail "Token has expired". A token that is
  malformed or wrongly signed, and a validly signed, unexpired token that lacks the
  subject id, the email or the role, are both answered with the same exception: status
  401, detail "Could not validate credentials". The expired outcome differs from that
  one.
\<close>

theorem decode_token_outcomes:
  "(jwt_decode token (JWT_SECRET_KEY cfg) now = Inl ExpiredSignatureError
      \<longrightarrow> decode_token cfg now token = Inl expired_exception)
   \<and> (jwt_decode token (JWT_SECRET_KEY cfg) now = Inl InvalidTokenError
      \<longrightarrow> decode_token cfg now token = Inl credentials_exception)
   \<and> (\<forall>p. jwt_decode token (JWT_SECRET_KEY cfg) now = Inr p
          \<and> (claims p ''id'' = None \<or> claims p ''email'' = None \<or> claims p ''role'' = None)
      \<longrightarrow> decode_token cfg now token = Inl credentials_exception)
   \<and> expired_exception \<noteq> credentials_exception
   \<and> status_code expired_exception = 401 \<and> status_code credentials_exception = 401"
  by (auto simp: decode_token_def expired_exception_def credentials_exception_def
           split: option.splits)

theorem decode_token_outcomes_witness:
  "decode_token settings 2000000000
     (JWS (hs256_key (JWT_SECRET_KEY settings)) \<lparr>claims = alice_claims, exp = Some 1000\<rparr>)
     = Inl expired_exception
   \<and> decode_token settings 2000000000 Undecodable = Inl credentials_exception
   \<and> decode_token settings 2000000000 no_id_token = Inl credentials_exception"
proof -
  have a: "jwt_decode (JWS (hs256_key (JWT_SECRET_KEY settings)) \<lparr>claims = alice_claims, exp = Some 1000\<rparr>)
             (JWT_SECRET_KEY settings) 2000000000 = Inl ExpiredSignatureError"
    by simp
  have b: "jwt_decode Undecodable (JWT_SECRET_KEY settings) 2000000000 = Inl InvalidTokenError"
    by simp
  have c: "jwt_decode no_id_token (JWT_SECRET_KEY settings) 2000000000
             = Inr \<lparr>claims = [''email'' \<mapsto> ''alice@campus.edu'', ''role'' \<mapsto> ''student''],
                    exp = None\<rparr>"
    by (simp add: no_id_token_def)
  from a decode_token_outcomes[of "JWS (hs256_key (JWT_SECRET_KEY settings)) \<lparr>claims = alice_claims, exp = Some 1000\<rparr>" settings 2000000000]
  have 1: "decode_token settings 2000000000
             (JWS (hs256_key (JWT_SECRET_KEY settings)) \<lparr>claims = alice_claims, exp = Some 1000\<rparr>)
             = Inl expired_exception"
    by blast
  from b decode_token_outcomes[of Undecodable settings 2000000000]
  have 2: "decode_token settings 2000000000 Undecodable = Inl credentials_exception"
    by blast
  from c decode_token_outcomes[of no_id_token settings 2000000000]
  have 3: "decode_token settings 2000000000 no_id_token = Inl credentials_exception"
    by simp
  from 1 2 3 show ?thesis by simp
qed

text \<open>
  The claim as the specification states it fails: a malformed token and a validly signed
  token without the subject id are answered with the same exception.
\<close>

theorem decode_token_distinct_counterexample:
  "jwt_decode Undecodable (JWT_SECRET_KEY settings) 2000 = Inl InvalidTokenError
   \<and> jwt_decode no_id_token (JWT_SECRET_KEY settings) 2000
       = Inr \<lparr>claims = [''email'' \<mapsto> ''alice@campus.edu'', ''role'' \<mapsto> ''student''],
              exp = None\<rparr>
   \<and> decode_token settings 2000 Undecodable = decode_token settings 2000 no_id_token"
  by (simp add: no_id_token_def decode_token_def)






text \<open>
  The same holds on the path login takes, where no time to live is passed and the
  configured number of minutes is used.
\<close>

lemma token_roundtrip_default:
  assumes "data = [''email'' \<mapsto> e, ''role'' \<mapsto> UserRole_value r, ''id'' \<mapsto> i]"
  shows "(now' < 1000000 * whole_seconds (now + minutes (ACCESS_TOKEN_EXPIRE_MINUTES cfg)) \<longrightarrow>
            decode_token cfg now' (create_access_token cfg now data None)
              = Inr \<lparr>td_email = Some e, td_role = Some r, td_id = Some i\<rparr>)
       \<and> (1000000 * whole_seconds (now + minutes (ACCESS_TOKEN_EXPIRE_MINUTES cfg)) \<le> now' \<longrightarrow>
            decode_token cfg now' (create_access_token cfg now data None)
              = Inl expired_exception)"
  using assms
  by (auto simp: decode_token_def create_access_token_def jwt_encode_def UserRole_of_value
        Let_def)

subsection \<open>Password hashing\<close>

lemma bcrypt_roundtrip:
  "bcrypt_verify p (bcrypt_hash p0 salt)
     = (if CHR 0x00 \<in> set p then Inl NullPasswordError else Inr (take 72 p = take 72 p0))"
  by (simp add: bcrypt_verify_def bcrypt_identify_def bcrypt_idents_def bcrypt_hash_def
        bcrypt_checksum_def isdigit_def)

lemma bcrypt_unidentified:
  assumes "take 2 d \<noteq> ''$2''"
  shows "bcrypt_verify p d = Inl UnknownHashError"
proof -
  have "take (length i) d \<noteq> i" if i: "i \<in> set bcrypt_idents" for i
  proof
    assume "take (length i) d = i"
    then have "take 2 (take (length i) d) = take 2 i" by simp
    moreover from i have "take 2 i = ''$2''" and "2 \<le> length i"
      by (auto simp: bcrypt_idents_def)
    ultimately show False using assms by (simp add: min_def)
  qed
  then have "List.find (\<lambda>i. take (length i) d = i) bcrypt_idents = None"
    by (simp add: find_None_iff)
  then show ?thesis by (simp add: bcrypt_verify_def bcrypt_identify_def)
qed

text \<open>
  C5, as the code has it. \<open>verify_password\<close> returns a boolean exactly when the hashing
  library's \<open>verify\<close> returns one, and it is that boolean. When the library raises, as it
  does for a string that is no digest of the scheme, the same exception reaches the
  caller: \<open>verify_password\<close> has no handler and does not answer false, and login, which
  calls it, has none either.
\<close>

theorem verify_password_passes_through:
  "(\<forall>b. ctx_verify pwd_context p d = Inr b \<longrightarrow> verify_password pwd_context p d = Inr b)
   \<and> (\<forall>e. ctx_verify pwd_context p d = Inl e \<longrightarrow> verify_password pwd_context p d = Inl e)
   \<and> (\<forall>e u. find_one (\<lambda>x. email x = login_email) db = Some u \<and> hashed_password u = d
              \<and> ctx_verify pwd_context p d = Inl e
          \<longrightarrow> login_for_access_token cfg pwd_context now login_email p db = Inl e)"
proof (intro conjI allI impI)
  fix b assume "ctx_verify pwd_context p d = Inr b"
  then show "verify_password pwd_context p d = Inr b"
    by (simp add: verify_password_def)
next
  fix e assume "ctx_verify pwd_context p d = Inl e"
  then show "verify_password pwd_context p d = Inl e"
    by (simp add: verify_password_def)
next
  fix e u
  assume a: "find_one (\<lambda>x. email x = login_email) db = Some u \<and> hashed_password u = d
             \<and> ctx_verify pwd_context p d = Inl e"
  then have "verify_password pwd_context p (hashed_password u) = Inl e"
    by (simp add: verify_password_def)
  with a show "login_for_access_token cfg pwd_context now login_email p db = Inl e"
    by (simp add: login_for_access_token_def)
qed

theorem verify_password_passes_through_witness:
  "verify_password bcrypt_context ''password123'' (hashed_password alice) = Inr True
   \<and> verify_password bcrypt_context ''wrong-password'' (hashed_password alice) = Inr False
   \<and> verify_password bcrypt_context ''password123'' ''plain text'' = Inl UnknownHashError
   \<and> login_for_access_token settings bcrypt_context 1000 ''carol@campus.edu'' ''password123''
        [carol\<lparr>hashed_password := ''plain text''\<rparr>]
      = Inl UnknownHashError"
proof -
  have a: "ctx_verify bcrypt_context ''password123'' (hashed_password alice) = Inr True"
    by (simp add: bcrypt_context_def alice_def bcrypt_roundtrip)
  have b: "ctx_verify bcrypt_context ''wrong-password'' (hashed_password alice) = Inr False"
    by (simp add: bcrypt_context_def alice_def bcrypt_roundtrip)
  have c: "ctx_verify bcrypt_context ''password123'' ''plain text'' = Inl UnknownHashError"
    by (simp add: bcrypt_context_def bcrypt_unidentified)
  have f: "find_one (\<lambda>x. email x = ''carol@campus.edu'') [carol\<lparr>hashed_password := ''plain text''\<rparr>]
             = Some (carol\<lparr>hashed_password := ''plain text''\<rparr>)"
    by (simp add: find_one_def carol_def)
  have h: "hashed_password (carol\<lparr>hashed_password := ''plain text''\<rparr>) = ''plain text''"
    by simp
  from a verify_password_passes_through[of bcrypt_context "''password123''" "hashed_password alice"]
  have 1: "verify_password bcrypt_context ''password123'' (hashed_password alice) = Inr True"
    by blast
  from b verify_password_passes_through[of bcrypt_context "''wrong-password''" "hashed_password alice"]
  have 2: "verify_password bcrypt_context ''wrong-password'' (hashed_password alice) = Inr False"
    by blast
  from c verify_password_passes_through[of bcrypt_context "''password123''" "''plain text''"]
  have 3: "verify_password bcrypt_context ''password123'' ''plain text'' = Inl UnknownHashError"
    by blast
  from f h c verify_password_passes_through[of bcrypt_context "''password123''" "''plain text''"
      "''carol@campus.edu''" "[carol\<lparr>hashed_password := ''plain text''\<rparr>]" settings 1000]
  have 4: "login_for_access_token settings bcrypt_context 1000 ''carol@campus.edu'' ''password123''
        [carol\<lparr>hashed_password := ''plain text''\<rparr>]
      = Inl UnknownHashError"
    by blast
  from 1 2 3 4 show ?thesis by simp
qed

text \<open>
  The claim as the specification states it fails: for a string that is not a digest,
  \<open>verify_password\<close> raises and does not return false.
\<close>

theorem verify_password_raises_counterexample:
  "verify_password bcrypt_context ''password123'' ''not-a-digest'' = Inl UnknownHashError"
  by (simp add: verify_password_def bcrypt_context_def bcrypt_unidentified)

subsection \<open>Login\<close>

text \<open>
  Login rejects every unverified account that presents its password, whatever its role.
\<close>

lemma login_unverified_rejected:
  assumes "find_one (\<lambda>d. email d = e) db = Some u"
    and "verify_password pwd_context pw (hashed_password u) = Inr True"
    and "\<not> is_verified u"
  shows "login_for_access_token cfg pwd_context now e pw db
           = Inl (HTTPException 403 ''Account not verified. Please verify your email.''
                    [(''WWW-Authenticate'', ''Bearer'')])"
  using assms by (simp add: login_for_access_token_def)

text \<open>
  C1 at a concrete input. The account \<open>root_admin\<close> is an administrator, is not verified
  and is active, and the password presented is the one that was hashed. Login answers
  403 "Account not verified"; it issues no token.
\<close>

theorem login_unverified_admin_rejected:
  "role root_admin = ADMIN \<and> \<not> is_verified root_admin \<and> status root_admin = ACTIVE
   \<and> verify_password bcrypt_context ''adminpassword'' (hashed_password root_admin) = Inr True
   \<and> login_for_access_token settings bcrypt_context 1000 ''root@campus.edu'' ''adminpassword''
        [alice, root_admin]
      = Inl (HTTPException 403 ''Account not verified. Please verify your email.''
               [(''WWW-Authenticate'', ''Bearer'')])"
  by (simp add: login_for_access_token_def find_one_def alice_def root_admin_def
        verify_password_def bcrypt_context_def bcrypt_roundtrip)

text \<open>
  The guard of the protected routes does let the same account through, once it holds a
  token: the exemption of administrators is in \<open>get_current_user\<close> and not in login.
\<close>

lemma ObjectId_of_root_admin:
  "ObjectId ''64b7f0c2a1d3e4f5a6b7c8db'' = Inr (BObjectId ''64b7f0c2a1d3e4f5a6b7c8db'')"
  by (simp add: ObjectId_def is_space_def hexdigit_def hex_lower_def)

lemma get_current_user_admits_unverified_admin:
  "get_current_user settings 1000
     (create_access_token settings 900
        [''email'' \<mapsto> email root_admin, ''role'' \<mapsto> UserRole_value (role root_admin),
         ''id'' \<mapsto> user_id_str root_admin] None)
     [alice, root_admin] = Inr root_admin"
proof -
  have d: "decode_token settings 1000
     (create_access_token settings 900
        [''email'' \<mapsto> email root_admin, ''role'' \<mapsto> UserRole_value (role root_admin),
         ''id'' \<mapsto> user_id_str root_admin] None)
      = Inr \<lparr>td_email = Some (email root_admin), td_role = Some (role root_admin),
             td_id = Some ''64b7f0c2a1d3e4f5a6b7c8db''\<rparr>"
    by (simp add: decode_token_def create_access_token_def jwt_encode_def Let_def
          whole_seconds_def minutes_def settings_def UserRole_of_def root_admin_def
          user_id_str_def)
  show ?thesis
    unfolding get_current_user_def d
    by (simp add: ObjectId_of_root_admin find_one_def alice_def root_admin_def)
qed

subsection \<open>The guard chain\<close>

text \<open>
  For a token whose subject id \<open>ObjectId\<close> accepts, every protected route runs the checks
  in one order: the identity is resolved (a decoding error, or no account with that id:
  401), then the verified gate (an unverified account that is no administrator: 403),
  then the active gate (400), then the role gate of the route (403). The first check
  that fails is the answer. A request that passes every check is not answered with the
  public view: the framework asks for the query parameters \<open>args\<close> and \<open>kwargs\<close> and
  answers 422 without them, and with them the call of the route function raises
  TypeError.
\<close>

lemma after_gates:
  "depends (request_validation query)
     (decorated_function (\<lambda>current_user. Inr (to_UserResponse current_user)) u [])
   = (if query ''args'' \<noteq> None \<and> query ''kwargs'' \<noteq> None then Inl TypeError
      else Inl (RequestValidationError (filter (\<lambda>n. query n = None) [''args'', ''kwargs''])))"
  by (auto simp: depends_def request_validation_def decorated_function_def
           split: option.splits)

lemma guard_chain_order:
  "(\<forall>e. decode_token cfg now token = Inl e
        \<longrightarrow> router r cfg now token query db = Inl e \<and> status_code e = 401)
   \<and> (\<forall>td uid oid. decode_token cfg now token = Inr td \<and> td_id td = Some uid
          \<and> ObjectId uid = Inr oid \<longrightarrow>
         router r cfg now token query db =
           (case find_one (\<lambda>d. doc_id d = oid) db of
              None \<Rightarrow> Inl credentials_exception
            | Some u \<Rightarrow>
                if \<not> is_verified u \<and> role u \<noteq> ADMIN then Inl unverified_exception
                else if status u \<noteq> ACTIVE then Inl (HTTPException 400 ''Inactive user'' [])
                else if \<not> role_allowed r (role u)
                  then Inl (HTTPException 403
                              (case r of
                                 Student_route \<Rightarrow> ''Not enough permissions. Student access required.''
                               | Teacher_route \<Rightarrow> ''Not enough permissions. Teacher or Admin access required.''
                               | Admin_route \<Rightarrow> ''Not enough permissions. Admin access required.''
                               | Any_active_route \<Rightarrow> []) [])
                else if query ''args'' \<noteq> None \<and> query ''kwargs'' \<noteq> None then Inl TypeError
                else Inl (RequestValidationError
                            (filter (\<lambda>n. query n = None) [''args'', ''kwargs'']))))
   \<and> status_code credentials_exception = 401 \<and> status_code unverified_exception = 403"
proof (intro conjI allI impI)
  fix e assume e: "decode_token cfg now token = Inl e"
  then show "router r cfg now token query db = Inl e"
    by (cases r)
       (simp_all add: protected_student_route_def protected_teacher_route_def
          protected_admin_route_def protected_any_active_route_def depends_def
          get_current_user_def)
  from e show "status_code e = 401"
    by (auto simp: decode_token_def expired_exception_def credentials_exception_def
             split: sum.splits jwt_error.splits option.splits)
next
  fix td uid oid
  assume a: "decode_token cfg now token = Inr td \<and> td_id td = Some uid \<and> ObjectId uid = Inr oid"
  then have g: "get_current_user cfg now token db =
      (case find_one (\<lambda>d. doc_id d = oid) db of
         None \<Rightarrow> Inl credentials_exception
       | Some u \<Rightarrow> if \<not> is_verified u \<and> role u \<noteq> ADMIN then Inl unverified_exception else Inr u)"
    by (simp add: get_current_user_def)
  have ag: "\<And>u. (case request_validation query of Inl e \<Rightarrow> Inl e
                 | Inr x \<Rightarrow> decorated_function (\<lambda>current_user. Inr (to_UserResponse current_user)) u [] x)
      = (if query ''args'' \<noteq> None \<and> query ''kwargs'' \<noteq> None then Inl TypeError
         else Inl (RequestValidationError (filter (\<lambda>n. query n = None) [''args'', ''kwargs''])))"
    using after_gates[of query] by (simp add: depends_def)
  show "router r cfg now token query db =
           (case find_one (\<lambda>d. doc_id d = oid) db of
              None \<Rightarrow> Inl credentials_exception
            | Some u \<Rightarrow>
                if \<not> is_verified u \<and> role u \<noteq> ADMIN then Inl unverified_exception
                else if status u \<noteq> ACTIVE then Inl (HTTPException 400 ''Inactive user'' [])
                else if \<not> role_allowed r (role u)
                  then Inl (HTTPException 403
                              (case r of
                                 Student_route \<Rightarrow> ''Not enough permissions. Student access required.''
                               | Teacher_route \<Rightarrow> ''Not enough permissions. Teacher or Admin access required.''
                               | Admin_route \<Rightarrow> ''Not enough permissions. Admin access required.''
                               | Any_active_route \<Rightarrow> []) [])
                else if query ''args'' \<noteq> None \<and> query ''kwargs'' \<noteq> None then Inl TypeError
                else Inl (RequestValidationError
                            (filter (\<lambda>n. query n = None) [''args'', ''kwargs''])))"
    by (cases r; cases "find_one (\<lambda>d. doc_id d = oid) db")
       (simp_all add: g ag protected_student_route_def protected_teacher_route_def
          protected_admin_route_def protected_any_active_route_def depends_def
          get_current_active_user_def get_current_student_user_def
          get_current_teacher_or_admin_user_def get_current_admin_user_def)
qed (simp_all add: credentials_exception_def unverified_exception_def)

text \<open>
  C8 at a concrete input. The token is validly signed and unexpired and carries the
  three claims, so decoding succeeds; its subject id \<open>abc\<close> is the id of no account. The
  route does not answer 401: \<open>ObjectId(user_id)\<close> raises InvalidId, which nothing
  catches.
\<close>

theorem malformed_subject_id_raises:
  "decode_token settings 1000 bad_subject_token
     = Inr \<lparr>td_email = Some ''carol@campus.edu'', td_role = Some STUDENT, td_id = Some ''abc''\<rparr>
   \<and> find_one (\<lambda>d. str_id (doc_id d) = ''abc'') [carol] = None
   \<and> router Student_route settings 1000 bad_subject_token Map.empty [carol]
       = Inl (InvalidId ''abc'')"
  by (simp add: bad_subject_token_def decode_token_def UserRole_of_def ObjectId_def
        protected_student_route_def depends_def get_current_user_def find_one_def carol_def)

subsection \<open>The verification token\<close>

lemma verify_user_email_found:
  assumes "distinct (map doc_id db)"
    and "find_one (\<lambda>d. verification_token d = Some t
                        \<and> unexpired (verification_token_expires_at d) now) db = Some u"
  shows "verify_user_email now now' t db
           = (map (\<lambda>d. if d = u then d\<lparr>is_verified := True, status := ACTIVE,
                                        verification_token := None,
                                        verification_token_expires_at := None,
                                        updated_at := now'\<rparr> else d) db,
              Some (u\<lparr>is_verified := True, status := ACTIVE, verification_token := None,
                      verification_token_expires_at := None, updated_at := now'\<rparr>))"
proof -
  let ?f = "\<lambda>d. d\<lparr>is_verified := True, status := ACTIVE, verification_token := None,
                   verification_token_expires_at := None, updated_at := now'\<rparr>"
  have u: "u \<in> set db" using find_one_SomeD[OF assms(2)] by simp
  have id: "doc_id (?f u) = doc_id u" by simp
  have upd: "update_one (\<lambda>d. doc_id d = doc_id u) ?f db
               = (map (\<lambda>d. if d = u then ?f d else d) db, if ?f u = u then 0 else 1)"
    by (rule update_one_by_id[OF assms(1) u])
  have fnd: "find_one (\<lambda>d. doc_id d = doc_id u) (map (\<lambda>d. if d = u then ?f d else d) db)
               = Some (?f u)"
    using find_one_by_id_after[of db u ?f] assms(1) u id by blast
  show ?thesis
    unfolding verify_user_email_def by (simp only: assms(2) option.case upd prod.case fnd)
qed

lemma verify_user_email_not_found:
  assumes "find_one (\<lambda>d. verification_token d = Some t
                        \<and> unexpired (verification_token_expires_at d) now) db = None"
  shows "verify_user_email now now' t db = (db, None)"
  unfolding verify_user_email_def by (simp add: assms)

lemma alice_bob_distinct: "distinct (map doc_id [alice, bob])"
  by (simp add: alice_def bob_def)

lemma alice_neq_bob: "alice \<noteq> bob"
  by (simp add: alice_def bob_def)

text \<open>
  C9. In a collection with unique \<open>_id\<close>s, let an account hold the verification token
  \<open>t\<close>, with an expiry strictly after the current instant, and let no other account hold
  \<open>t\<close>. Consuming \<open>t\<close> sets the account verified and active, clears the token and its
  expiry, and leaves every other document as it was. Nothing is assumed about the status
  the account had: an inactive account is made active as a pending one is.
\<close>

theorem verify_email_activates_any_status:
  assumes "distinct (map doc_id db)"
    and "u \<in> set db"
    and "verification_token u = Some t"
    and "verification_token_expires_at u = Some e" and "now < e"
    and "\<forall>d\<in>set db. verification_token d = Some t \<longrightarrow> d = u"
  shows "verify_user_email now now' t db
           = (map (\<lambda>d. if d = u then d\<lparr>is_verified := True, status := ACTIVE,
                                        verification_token := None,
                                        verification_token_expires_at := None,
                                        updated_at := now'\<rparr> else d) db,
              Some (u\<lparr>is_verified := True, status := ACTIVE, verification_token := None,
                      verification_token_expires_at := None, updated_at := now'\<rparr>))"
proof -
  have "find_one (\<lambda>d. verification_token d = Some t
                        \<and> unexpired (verification_token_expires_at d) now) db = Some u"
  proof (rule find_one_unique)
    show "u \<in> set db" by (rule assms(2))
    show "verification_token u = Some t \<and> unexpired (verification_token_expires_at u) now"
      using assms(3,4,5) by (simp add: unexpired_def)
  next
    fix d assume "d \<in> set db"
      and "verification_token d = Some t \<and> unexpired (verification_token_expires_at d) now"
    with assms(6) show "d = u" by blast
  qed
  from verify_user_email_found[OF assms(1) this] show ?thesis .
qed

theorem verify_email_activates_any_status_witness:
  "status bob = INACTIVE
   \<and> verify_user_email 1000 1001 ''verify-token-bob'' [alice, bob]
       = ([alice, bob\<lparr>is_verified := True, status := ACTIVE, verification_token := None,
                         verification_token_expires_at := None, updated_at := 1001\<rparr>],
          Some (bob\<lparr>is_verified := True, status := ACTIVE, verification_token := None,
                      verification_token_expires_at := None, updated_at := 1001\<rparr>))"
proof -
  have 1: "bob \<in> set [alice, bob]" by simp
  have 2: "verification_token bob = Some ''verify-token-bob''" by (simp add: bob_def)
  have 3: "verification_token_expires_at bob = Some 5000" by (simp add: bob_def)
  have 4: "(1000::int) < 5000" by simp
  have 5: "\<forall>d\<in>set [alice, bob]. verification_token d = Some ''verify-token-bob'' \<longrightarrow> d = bob"
    by (simp add: alice_def)
  have 6: "status bob = INACTIVE" by (simp add: bob_def)
  from verify_email_activates_any_status[OF alice_bob_distinct 1 2 3 4 5, of 1001] 6 alice_neq_bob
  show ?thesis by simp
qed

text \<open>
  C6. In a collection with unique \<open>_id\<close>s in which at most one account holds the token
  \<open>t\<close>: if consuming \<open>t\<close> succeeds and returns the account \<open>u\<close>, then \<open>u\<close> is stored
  verified and active with its token and expiry cleared, and consuming \<open>t\<close> again in the
  resulting collection, at any instant, finds nothing, is answered with 400 "Invalid or
  expired verification token." and returns the collection as it was, so the verified
  flag and the status of \<open>u\<close> stay as the first call left them.
\<close>

theorem verification_token_single_use:
  assumes "distinct (map doc_id db)"
    and "\<forall>x\<in>set db. \<forall>y\<in>set db.
           verification_token x = Some t \<and> verification_token y = Some t \<longrightarrow> x = y"
    and "verify_user_email now1 now1' t db = (db1, Some u)"
  shows "verify_user_email now2 now2' t db1 = (db1, None)
       \<and> verify_email_endpoint now2 now2' t db1
           = (db1, Inl (HTTPException 400 ''Invalid or expired verification token.'' []))
       \<and> u \<in> set db1 \<and> is_verified u \<and> status u = ACTIVE
       \<and> verification_token u = None \<and> verification_token_expires_at u = None"
proof -
  let ?m = "\<lambda>now d. verification_token d = Some t \<and> unexpired (verification_token_expires_at d) now"
  let ?f = "\<lambda>d. d\<lparr>is_verified := True, status := ACTIVE, verification_token := None,
                   verification_token_expires_at := None, updated_at := now1'\<rparr>"
  obtain a where a: "find_one (?m now1) db = Some a"
  proof (cases "find_one (?m now1) db")
    case None
    from verify_user_email_not_found[OF None, of now1'] assms(3) show ?thesis by simp
  next
    case (Some a)
    then show ?thesis by (rule that)
  qed
  from find_one_SomeD[OF a] have a_in: "a \<in> set db" and a_tok: "verification_token a = Some t"
    by simp_all
  from verify_user_email_found[OF assms(1) a, of now1'] assms(3)
  have db1: "db1 = map (\<lambda>d. if d = a then ?f d else d) db" and u: "u = ?f a"
    by simp_all
  have none: "find_one (?m now2) db1 = None"
    unfolding find_one_None_iff
  proof
    fix d assume "d \<in> set db1"
    then obtain x where x: "x \<in> set db" and dx: "d = (if x = a then ?f x else x)"
      unfolding db1 by auto
    show "\<not> ?m now2 d"
    proof (cases "x = a")
      case True
      with dx show ?thesis by simp
    next
      case False
      with assms(2) x a_in a_tok have "verification_token x \<noteq> Some t" by blast
      with dx False show ?thesis by simp
    qed
  qed
  have second: "verify_user_email now2 now2' t db1 = (db1, None)"
    by (rule verify_user_email_not_found[OF none])
  have "u \<in> set db1" unfolding db1 u using a_in by (auto simp: image_iff)
  with second u show ?thesis by (simp add: verify_email_endpoint_def)
qed

theorem verification_token_single_use_witness:
  "verify_user_email 1000 1001 ''verify-token-alice'' [alice, bob]
     = ([alice\<lparr>is_verified := True, status := ACTIVE, verification_token := None,
                  verification_token_expires_at := None, updated_at := 1001\<rparr>, bob],
        Some (alice\<lparr>is_verified := True, status := ACTIVE, verification_token := None,
                      verification_token_expires_at := None, updated_at := 1001\<rparr>))
   \<and> verify_email_endpoint 1002 1003 ''verify-token-alice''
        [alice\<lparr>is_verified := True, status := ACTIVE, verification_token := None,
                  verification_token_expires_at := None, updated_at := 1001\<rparr>, bob]
     = ([alice\<lparr>is_verified := True, status := ACTIVE, verification_token := None,
                  verification_token_expires_at := None, updated_at := 1001\<rparr>, bob],
        Inl (HTTPException 400 ''Invalid or expired verification token.'' []))"
proof -
  have 6: "\<forall>x\<in>set [alice, bob]. \<forall>y\<in>set [alice, bob].
           verification_token x = Some ''verify-token-alice''
           \<and> verification_token y = Some ''verify-token-alice'' \<longrightarrow> x = y"
    by (simp add: bob_def)
  have first: "verify_user_email 1000 1001 ''verify-token-alice'' [alice, bob]
     = ([alice\<lparr>is_verified := True, status := ACTIVE, verification_token := None,
                  verification_token_expires_at := None, updated_at := 1001\<rparr>, bob],
        Some (alice\<lparr>is_verified := True, status := ACTIVE, verification_token := None,
                      verification_token_expires_at := None, updated_at := 1001\<rparr>))"
    by (simp add: verify_user_email_def find_one_def unexpired_def alice_def bob_def)
  from verification_token_single_use[OF alice_bob_distinct 6 first, of 1002 1003] first
  show ?thesis by simp
qed

subsection \<open>The password reset\<close>

lemma reset_user_password_found:
  assumes "distinct (map doc_id db)"
    and "find_one (\<lambda>d. reset_password_token d = Some t
                        \<and> unexpired (reset_password_token_expires_at d) now) db = Some u"
  shows "reset_user_password now now' t pw db
           = (map (\<lambda>d. if d = u then d\<lparr>hashed_password := hash_password_placeholder pw,
                                        reset_password_token := None,
                                        reset_password_token_expires_at := None,
                                        updated_at := now'\<rparr> else d) db,
              Some (u\<lparr>hashed_password := hash_password_placeholder pw,
                      reset_password_token := None,
                      reset_password_token_expires_at := None, updated_at := now'\<rparr>))"
proof -
  let ?f = "\<lambda>d. d\<lparr>hashed_password := hash_password_placeholder pw,
                   reset_password_token := None,
                   reset_password_token_expires_at := None, updated_at := now'\<rparr>"
  have u: "u \<in> set db" using find_one_SomeD[OF assms(2)] by simp
  have id: "doc_id (?f u) = doc_id u" by simp
  have upd: "update_one (\<lambda>d. doc_id d = doc_id u) ?f db
               = (map (\<lambda>d. if d = u then ?f d else d) db, if ?f u = u then 0 else 1)"
    by (rule update_one_by_id[OF assms(1) u])
  have fnd: "find_one (\<lambda>d. doc_id d = doc_id u) (map (\<lambda>d. if d = u then ?f d else d) db)
               = Some (?f u)"
    using find_one_by_id_after[of db u ?f] assms(1) u id by blast
  show ?thesis
    unfolding reset_user_password_def Let_def
    by (simp only: assms(2) option.case upd prod.case fnd)
qed

lemma reset_user_password_not_found:
  assumes "find_one (\<lambda>d. reset_password_token d = Some t
                        \<and> unexpired (reset_password_token_expires_at d) now) db = None"
  shows "reset_user_password now now' t pw db = (db, None)"
  unfolding reset_user_password_def by (simp add: assms)

text \<open>
  C10. In a collection with unique \<open>_id\<close>s, a password reset that succeeds has found an
  account \<open>u\<close> that holds the token unexpired, and the new collection is the old one with
  \<open>u\<close> changed in four fields: the password hash, the reset token, its expiry and the
  update instant. Every document keeps its id, email, name, role, status, verified flag,
  verification token and expiry, and creation instant, and every document other than
  \<open>u\<close> is unchanged. Nothing is assumed about the status or the verified flag of \<open>u\<close>.
\<close>

theorem password_reset_frame:
  assumes "distinct (map doc_id db)"
    and "confirm_password_reset now now' t pw db = (db', Inr resp)"
  shows "\<exists>u\<in>set db.
           reset_password_token u = Some t
         \<and> unexpired (reset_password_token_expires_at u) now
         \<and> db' = map (\<lambda>d. if d = u
                             then d\<lparr>hashed_password := hash_password_placeholder pw,
                                    reset_password_token := None,
                                    reset_password_token_expires_at := None,
                                    updated_at := now'\<rparr>
                             else d) db
         \<and> list_all2 same_outside_reset db db'
         \<and> list_all2 (\<lambda>d d'. d = u \<or> d' = d) db db'"
proof -
  let ?m = "\<lambda>d. reset_password_token d = Some t \<and> unexpired (reset_password_token_expires_at d) now"
  let ?f = "\<lambda>d. d\<lparr>hashed_password := hash_password_placeholder pw,
                   reset_password_token := None,
                   reset_password_token_expires_at := None, updated_at := now'\<rparr>"
  obtain u where u: "find_one ?m db = Some u"
  proof (cases "find_one ?m db")
    case None
    from reset_user_password_not_found[OF None, of now' pw] assms(2) show ?thesis
      by (simp add: confirm_password_reset_def)
  next
    case (Some a)
    then show ?thesis by (rule that)
  qed
  from find_one_SomeD[OF u] have u_in: "u \<in> set db" and m: "?m u" by simp_all
  from reset_user_password_found[OF assms(1) u, of now' pw] assms(2)
  have db': "db' = map (\<lambda>d. if d = u then ?f d else d) db"
    by (simp add: confirm_password_reset_def)
  have fr: "list_all2 same_outside_reset db db'"
    unfolding db' by (simp add: list_all2_map2 list_all2_same same_outside_reset_def)
  have oth: "list_all2 (\<lambda>d d'. d = u \<or> d' = d) db db'"
    unfolding db' by (simp add: list_all2_map2 list_all2_same)
  from u_in m db' fr oth show ?thesis by blast
qed

theorem password_reset_frame_witness:
  "\<not> is_verified alice \<and> status alice = PENDING_VERIFICATION
   \<and> confirm_password_reset 1000 1001 ''reset-token-alice'' ''newpassword1'' [alice, bob]
       = ([alice\<lparr>hashed_password := ''hashed_newpassword1'', reset_password_token := None,
                   reset_password_token_expires_at := None, updated_at := 1001\<rparr>, bob],
          Inr (to_UserResponse alice))
   \<and> list_all2 same_outside_reset [alice, bob]
        [alice\<lparr>hashed_password := ''hashed_newpassword1'', reset_password_token := None,
                 reset_password_token_expires_at := None, updated_at := 1001\<rparr>, bob]"
proof -
  have a: "\<not> is_verified alice \<and> status alice = PENDING_VERIFICATION"
    by (simp add: alice_def)
  have c: "confirm_password_reset 1000 1001 ''reset-token-alice'' ''newpassword1'' [alice, bob]
       = ([alice\<lparr>hashed_password := ''hashed_newpassword1'', reset_password_token := None,
                   reset_password_token_expires_at := None, updated_at := 1001\<rparr>, bob],
          Inr (to_UserResponse alice))"
    by (simp add: confirm_password_reset_def reset_user_password_def find_one_def unexpired_def
          Let_def hash_password_placeholder_def alice_def bob_def to_UserResponse_def
          user_id_str_def)
  from password_reset_frame[OF alice_bob_distinct c]
  have "list_all2 same_outside_reset [alice, bob]
        [alice\<lparr>hashed_password := ''hashed_newpassword1'', reset_password_token := None,
                 reset_password_token_expires_at := None, updated_at := 1001\<rparr>, bob]"
    by blast
  with a c show ?thesis by simp
qed

text \<open>
  C2 at a concrete input. The account \<open>carol\<close> holds an unexpired reset token. The reset
  stores the new password behind the prefix \<open>hashed_\<close>: the text of the password, not a
  digest of the hashing scheme. The hashing context does not verify the new password
  against it, and the login with the new password ends in the library's exception.
\<close>

theorem reset_stores_placeholder_digest:
  "confirm_password_reset 1000 1001 ''reset-token-carol'' ''newpassword1'' [carol]
     = ([carol\<lparr>hashed_password := ''hashed_newpassword1'', reset_password_token := None,
                reset_password_token_expires_at := None, updated_at := 1001\<rparr>],
        Inr (to_UserResponse carol))
   \<and> verify_password bcrypt_context ''newpassword1'' ''hashed_newpassword1'' = Inl UnknownHashError
   \<and> login_for_access_token settings bcrypt_context 1002 ''carol@campus.edu'' ''newpassword1''
        [carol\<lparr>hashed_password := ''hashed_newpassword1'', reset_password_token := None,
                reset_password_token_expires_at := None, updated_at := 1001\<rparr>]
      = Inl UnknownHashError"
  by (simp add: confirm_password_reset_def reset_user_password_def find_one_def unexpired_def Let_def
        hash_password_placeholder_def carol_def to_UserResponse_def user_id_str_def
        login_for_access_token_def verify_password_def bcrypt_context_def bcrypt_unidentified)

text \<open>
  The stored value never depends on the hashing context: whatever the context, the
  account found by the token ends with the placeholder's string.
\<close>

lemma reset_stores_placeholder:
  assumes "distinct (map doc_id db)"
    and "reset_user_password now now' t pw db = (db', Some u')"
  shows "hashed_password u' = ''hashed_'' @ pw"
proof (cases "find_one (\<lambda>d. reset_password_token d = Some t
                        \<and> unexpired (reset_password_token_expires_at d) now) db")
  case None
  from reset_user_password_not_found[OF None, of now' pw] assms(2) show ?thesis by simp
next
  case (Some u)
  from reset_user_password_found[OF assms(1) Some, of now' pw] assms(2) show ?thesis
    by (auto simp: hash_password_placeholder_def)
qed

subsection \<open>The password reset request\<close>

text \<open>
  \<open>store_reset_password_token\<close> never writes and always reports failure, so the request
  for a registered email is answered with status 500, whatever the collection.
\<close>

lemma store_reset_password_token_fails:
  "store_reset_password_token cfg now now' user_id token db = (db, False)"
  by (simp add: store_reset_password_token_def json_encoders_ObjectId_def)

lemma store_verification_token_fails:
  "store_verification_token cfg now now' user_id token db = (db, False)"
  by (simp add: store_verification_token_def json_encoders_ObjectId_def)

lemma request_password_reset_registered:
  assumes "find_one (\<lambda>d. email d = e) db = Some u"
  shows "request_password_reset cfg now now' reset_token e db
           = (db, [], Inl (HTTPException 500 ''Failed to generate password reset token.'' []))"
  using assms by (simp add: request_password_reset_def store_reset_password_token_fails)

lemma request_password_reset_unregistered:
  assumes "find_one (\<lambda>d. email d = e) db = None"
  shows "request_password_reset cfg now now' reset_token e db = (db, [], Inr generic_message)"
  using assms by (simp add: request_password_reset_def)

text \<open>
  C3 at a concrete input. The collection holds \<open>alice\<close> and \<open>carol\<close>. The request for the
  registered email is answered with status 500, the request for an email that is not
  registered with the generic message.
\<close>

theorem reset_request_distinguishes_registered:
  "request_password_reset settings 1000 1001 ''fresh-token'' ''carol@campus.edu'' [alice, carol]
     = ([alice, carol], [], Inl (HTTPException 500 ''Failed to generate password reset token.'' []))
   \<and> request_password_reset settings 1000 1001 ''fresh-token'' ''nobody@campus.edu'' [alice, carol]
     = ([alice, carol], [], Inr generic_message)"
  by (simp add: request_password_reset_def store_reset_password_token_fails find_one_def
        alice_def carol_def)

end
